theory Spec2Isabelle
  imports Complex_Main
begin

section \<open>Porta-Spotty backend: data model\<close>

text \<open>
  The backend (\<^verbatim>\<open>src/backend/app/main.py\<close>) keeps two lists and a counter in module
  globals and exposes four operations on them. Python's \<^verbatim>\<open>int\<close> is modelled as
  \<^typ>\<open>int\<close>, \<^verbatim>\<open>str\<close> as \<^typ>\<open>string\<close>, \<^verbatim>\<open>Optional[...]\<close> as
  \<^typ>\<open>'a option\<close>. Python's \<^verbatim>\<open>float\<close> is modelled as \<^typ>\<open>real\<close>: rounding,
  infinities and NaN are outside the model, so every statement below about a
  distance or a mean is a statement about the exact value of the formula the
  code evaluates. The section on the proximity query says where the rounding
  of double precision makes the code depart from that value.
\<close>

text \<open>The request body of \<^verbatim>\<open>POST /toilets\<close> (class \<^verbatim>\<open>ToiletCreate\<close>).\<close>

record ToiletCreate =
  name :: string
  latitude :: real
  longitude :: real
  is_free :: bool
  wheelchair :: "bool option"
  running_water :: "bool option"
  indoor :: "bool option"
  open_in_winter :: "bool option"
  gender_neutral :: "bool option"
  baby_change :: "bool option"
  menstrual_products :: "bool option"

text \<open>
  The stored record (class \<^verbatim>\<open>Toilet\<close>). The field \<^verbatim>\<open>id\<close> is written \<open>id'\<close>,
  since \<open>id\<close> is the identity function of HOL. The fields shared with
  \<^typ>\<open>ToiletCreate\<close> keep their names; those of the request are then written
  qualified (\<open>ToiletCreate.name\<close>).
\<close>

record Toilet =
  id' :: int
  name :: string
  latitude :: real
  longitude :: real
  is_free :: bool
  wheelchair :: "bool option"
  running_water :: "bool option"
  indoor :: "bool option"
  open_in_winter :: "bool option"
  gender_neutral :: "bool option"
  baby_change :: "bool option"
  menstrual_products :: "bool option"
  avg_cleanliness :: "real option"
  rating_count :: int

text \<open>The request body of \<^verbatim>\<open>POST /toilets/{toilet_id}/ratings\<close> (class \<^verbatim>\<open>RatingCreate\<close>).\<close>

record RatingCreate =
  cleanliness :: int
  comment :: "string option"

text \<open>
  An entry of \<^verbatim>\<open>ratings_db\<close>: the dictionary with the keys \<^verbatim>\<open>toilet_id\<close>,
  \<^verbatim>\<open>cleanliness\<close> and \<^verbatim>\<open>comment\<close> that \<^verbatim>\<open>add_rating\<close> builds.
\<close>

record Rating =
  toilet_id :: int
  cleanliness :: int
  comment :: "string option"

text \<open>
  The module globals. The elements of \<open>toilets_db\<close> are mutable objects in the
  source; the list is only ever appended to, so an object is identified by its
  position in the list.
\<close>

record state =
  toilets_db :: "Toilet list"
  ratings_db :: "Rating list"
  next_toilet_id :: int

definition init_state :: state where
  "init_state = \<lparr> toilets_db = [], ratings_db = [], next_toilet_id = 1 \<rparr>"

text \<open>
  The exceptions the code can raise: \<^verbatim>\<open>HTTPException(status_code, detail)\<close>, raised by
  the endpoints, and the \<^verbatim>\<open>ValueError\<close> of \<^verbatim>\<open>math.sqrt\<close> on a negative argument.
\<close>

datatype error = HTTPException int string | ValueError

text \<open>
  The detail of the 400 response is \<^verbatim>\<open>cleanliness must be 1-5\<close> with an en dash
  (U+2013) between the digits, here in its UTF-8 encoding.
\<close>

definition detail_400 :: string where
  "detail_400 = ''cleanliness must be 1'' @ [char_of (0xE2::nat), char_of (0x80::nat), char_of (0x93::nat)] @ ''5''"

definition detail_404 :: string where
  "detail_404 = ''Restroom not found''"

section \<open>Utility functions\<close>

subsection \<open>The functions of Python's \<^verbatim>\<open>math\<close> module that the code calls\<close>

definition math_radians :: "real \<Rightarrow> real" where
  "math_radians x = x * (pi / 180)"

definition math_sqrt :: "real \<Rightarrow> error + real" where
  "math_sqrt x = (if x < 0 then Inl ValueError else Inr (sqrt x))"

text \<open>\<^verbatim>\<open>math.atan2(y, x)\<close>: the angle of the point \<open>(x, y)\<close>, in \<open>(-pi, pi]\<close>, and 0 at the origin.\<close>

definition math_atan2 :: "real \<Rightarrow> real \<Rightarrow> real" where
  "math_atan2 y x =
     (if 0 < x then arctan (y / x)
      else if x < 0 then (if 0 \<le> y then arctan (y / x) + pi else arctan (y / x) - pi)
      else if 0 < y then pi / 2
      else if y < 0 then - (pi / 2)
      else 0)"

subsection \<open>\<^verbatim>\<open>haversine_km\<close>\<close>

text \<open>The value of the local variable \<^verbatim>\<open>a\<close> of \<^verbatim>\<open>haversine_km\<close>.\<close>

definition haversine_a :: "real \<Rightarrow> real \<Rightarrow> real \<Rightarrow> real \<Rightarrow> real" where
  "haversine_a lat1 lon1 lat2 lon2 =
     (let phi1 = math_radians lat1;
          phi2 = math_radians lat2;
          dphi = math_radians (lat2 - lat1);
          dlambda = math_radians (lon2 - lon1)
      in (sin (dphi / 2))\<^sup>2 + cos phi1 * cos phi2 * (sin (dlambda / 2))\<^sup>2)"

definition haversine_km :: "real \<Rightarrow> real \<Rightarrow> real \<Rightarrow> real \<Rightarrow> error + real" where
  "haversine_km lat1 lon1 lat2 lon2 =
     (let R = 6371.0;
          a = haversine_a lat1 lon1 lat2 lon2
      in case math_sqrt a of
           Inl e \<Rightarrow> Inl e
         | Inr s1 \<Rightarrow>
             (case math_sqrt (1 - a) of
                Inl e \<Rightarrow> Inl e
              | Inr s2 \<Rightarrow> let c = 2 * math_atan2 s1 s2 in Inr (R * c)))"

subsection \<open>\<^verbatim>\<open>recompute_rating_stats\<close>\<close>

text \<open>The list comprehension \<^verbatim>\<open>[r["cleanliness"] for r in ratings_db if r["toilet_id"] == toilet_id]\<close>.\<close>

definition scores_of :: "int \<Rightarrow> Rating list \<Rightarrow> int list" where
  "scores_of tid rs = map cleanliness (filter (\<lambda>r. toilet_id r = tid) rs)"

text \<open>
  The loop over \<^verbatim>\<open>toilets_db\<close>: the first record with the identifier is updated in
  place and the loop breaks. In Python \<^verbatim>\<open>sum(scores) / len(scores)\<close> is the true
  division of two integers.
\<close>

fun recompute_loop :: "int \<Rightarrow> int list \<Rightarrow> Toilet list \<Rightarrow> Toilet list" where
  "recompute_loop tid scores [] = []"
| "recompute_loop tid scores (t # ts) =
     (if id' t = tid then
        (if scores \<noteq> [] then
           t\<lparr> avg_cleanliness := Some (real_of_int (sum_list scores) / real (length scores)),
              rating_count := int (length scores) \<rparr>
         else
           t\<lparr> avg_cleanliness := None, rating_count := 0 \<rparr>) # ts
      else t # recompute_loop tid scores ts)"

definition recompute_rating_stats :: "int \<Rightarrow> state \<Rightarrow> state" where
  "recompute_rating_stats tid st =
     (let scores = scores_of tid (ratings_db st)
      in st\<lparr> toilets_db := recompute_loop tid scores (toilets_db st) \<rparr>)"

section \<open>API endpoints\<close>

text \<open>
  Every endpoint takes the state and returns its response, or the exception it
  raises, together with the state it leaves.
\<close>

subsection \<open>\<^verbatim>\<open>create_toilet\<close>\<close>

definition create_toilet :: "ToiletCreate \<Rightarrow> state \<Rightarrow> Toilet \<times> state" where
  "create_toilet toilet st =
     (let new = \<lparr> id' = next_toilet_id st,
                  name = ToiletCreate.name toilet,
                  latitude = ToiletCreate.latitude toilet,
                  longitude = ToiletCreate.longitude toilet,
                  is_free = ToiletCreate.is_free toilet,
                  wheelchair = ToiletCreate.wheelchair toilet,
                  running_water = ToiletCreate.running_water toilet,
                  indoor = ToiletCreate.indoor toilet,
                  open_in_winter = ToiletCreate.open_in_winter toilet,
                  gender_neutral = ToiletCreate.gender_neutral toilet,
                  baby_change = ToiletCreate.baby_change toilet,
                  menstrual_products = ToiletCreate.menstrual_products toilet,
                  avg_cleanliness = None,
                  rating_count = 0 \<rparr>
      in (new, st\<lparr> toilets_db := toilets_db st @ [new],
                   next_toilet_id := next_toilet_id st + 1 \<rparr>))"

subsection \<open>\<^verbatim>\<open>list_toilets\<close>\<close>

text \<open>
  The loop of \<^verbatim>\<open>list_toilets\<close>, with \<^verbatim>\<open>results\<close> as accumulator. An exception of
  \<^verbatim>\<open>haversine_km\<close> ends the loop.
\<close>

fun list_loop :: "real \<Rightarrow> real \<Rightarrow> real \<Rightarrow> Toilet list \<Rightarrow> Toilet list \<Rightarrow> error + Toilet list" where
  "list_loop lat lng radius_km [] results = Inr results"
| "list_loop lat lng radius_km (t # ts) results =
     (case haversine_km lat lng (latitude t) (longitude t) of
        Inl e \<Rightarrow> Inl e
      | Inr d \<Rightarrow>
          list_loop lat lng radius_km ts (if d \<le> radius_km then results @ [t] else results))"

text \<open>
  The query parameter \<^verbatim>\<open>radius_km\<close> is declared \<^verbatim>\<open>Query(2.0, ...)\<close>: a request without it
  (\<open>None\<close>) gets 2.0.
\<close>

definition list_toilets :: "real \<Rightarrow> real \<Rightarrow> real option \<Rightarrow> state \<Rightarrow> error + Toilet list" where
  "list_toilets lat lng radius_km st =
     list_loop lat lng (case radius_km of None \<Rightarrow> 2.0 | Some r \<Rightarrow> r) (toilets_db st) []"

subsection \<open>\<^verbatim>\<open>get_toilet\<close>\<close>

fun get_loop :: "int \<Rightarrow> Toilet list \<Rightarrow> error + Toilet" where
  "get_loop tid [] = Inl (HTTPException 404 detail_404)"
| "get_loop tid (t # ts) = (if id' t = tid then Inr t else get_loop tid ts)"

definition get_toilet :: "int \<Rightarrow> state \<Rightarrow> error + Toilet" where
  "get_toilet tid st = get_loop tid (toilets_db st)"

subsection \<open>\<^verbatim>\<open>add_rating\<close>\<close>

text \<open>
  The loop of \<^verbatim>\<open>add_rating\<close> stops at the first record with the identifier; the
  position of that record is what the model keeps of the loop variable \<^verbatim>\<open>t\<close>.
\<close>

fun first_with_id :: "int \<Rightarrow> Toilet list \<Rightarrow> nat option" where
  "first_with_id tid [] = None"
| "first_with_id tid (t # ts) =
     (if id' t = tid then Some 0 else map_option Suc (first_with_id tid ts))"

text \<open>
  The object \<^verbatim>\<open>t\<close> that \<^verbatim>\<open>add_rating\<close> returns is an element of \<^verbatim>\<open>toilets_db\<close>, and
  \<^verbatim>\<open>recompute_rating_stats\<close> has mutated the elements of that list before the
  return: the response is the record at the position of \<^verbatim>\<open>t\<close> in the list as the
  recomputation left it.
\<close>

definition add_rating :: "int \<Rightarrow> RatingCreate \<Rightarrow> state \<Rightarrow> (error + Toilet) \<times> state" where
  "add_rating tid rating st =
     (if \<not> (1 \<le> RatingCreate.cleanliness rating \<and> RatingCreate.cleanliness rating \<le> 5) then
        (Inl (HTTPException 400 detail_400), st)
      else
        (case first_with_id tid (toilets_db st) of
           Some i \<Rightarrow>
             (let st1 = st\<lparr> ratings_db := ratings_db st @
                            [\<lparr> toilet_id = tid,
                               cleanliness = RatingCreate.cleanliness rating,
                               comment = RatingCreate.comment rating \<rparr>] \<rparr>;
                  st2 = recompute_rating_stats tid st1
              in (Inr (toilets_db st2 ! i), st2))
         | None \<Rightarrow> (Inl (HTTPException 404 detail_404), st)))"

section \<open>Request sequences\<close>

text \<open>
  The transport layer calls the four endpoints one request at a time, on the
  state the previous request left. An exception ends the request that raised
  it, not the process.
\<close>

datatype request =
  Create ToiletCreate
| ListWithin real real "real option"
| Get int
| Submit int RatingCreate

datatype response = OneToilet Toilet | ManyToilets "Toilet list"

fun handle :: "request \<Rightarrow> state \<Rightarrow> (error + response) \<times> state" where
  "handle (Create toilet) st =
     (let (new, st') = create_toilet toilet st in (Inr (OneToilet new), st'))"
| "handle (ListWithin lat lng radius_km) st =
     (case list_toilets lat lng radius_km st of
        Inl e \<Rightarrow> (Inl e, st)
      | Inr ts \<Rightarrow> (Inr (ManyToilets ts), st))"
| "handle (Get tid) st =
     (case get_toilet tid st of
        Inl e \<Rightarrow> (Inl e, st)
      | Inr t \<Rightarrow> (Inr (OneToilet t), st))"
| "handle (Submit tid rating) st =
     (case add_rating tid rating st of
        (Inl e, st') \<Rightarrow> (Inl e, st')
      | (Inr t, st') \<Rightarrow> (Inr (OneToilet t), st'))"

fun serve :: "request list \<Rightarrow> state \<Rightarrow> (error + response) list \<times> state" where
  "serve [] st = ([], st)"
| "serve (q # qs) st =
     (let (r, st1) = handle q st; (rs, st2) = serve qs st1 in (r # rs, st2))"

fun is_create :: "request \<Rightarrow> bool" where
  "is_create (Create toilet) = True"
| "is_create q = False"

text \<open>A sequence of calls of \<open>create_toilet\<close>, with the records they return.\<close>

fun create_all :: "ToiletCreate list \<Rightarrow> state \<Rightarrow> Toilet list \<times> state" where
  "create_all [] st = ([], st)"
| "create_all (c # cs) st =
     (let (new, st1) = create_toilet c st; (news, st2) = create_all cs st1 in (new # news, st2))"

section \<open>Specification vocabulary\<close>

text \<open>
  The notions the spec states its properties with. These definitions follow
  the spec's words, not the code; the theorems compare the code with them.
\<close>

text \<open>The arithmetic mean of a non-empty list of integers.\<close>

definition mean :: "int list \<Rightarrow> real" where
  "mean xs = real_of_int (sum_list xs) / real (length xs)"

text \<open>
  A record's cached statistics agree with a rating log: the count is the number
  of events for the record, and the average is their mean, or null when there
  are none.
\<close>

definition stats_consistent :: "Rating list \<Rightarrow> Toilet \<Rightarrow> bool" where
  "stats_consistent rs t =
     (let scores = scores_of (id' t) rs
      in rating_count t = int (length scores) \<and>
         avg_cleanliness t = (if scores = [] then None else Some (mean scores)))"

definition consistent :: "state \<Rightarrow> bool" where
  "consistent st = (\<forall>t\<in>set (toilets_db st). stats_consistent (ratings_db st) t)"

text \<open>
  The great-circle distance in kilometres between two points given in degrees,
  on a sphere of radius 6371.0 km: the radius times the central angle, by the
  spherical law of cosines.
\<close>

definition great_circle_km :: "real \<Rightarrow> real \<Rightarrow> real \<Rightarrow> real \<Rightarrow> real" where
  "great_circle_km lat1 lon1 lat2 lon2 =
     6371.0 * arccos (sin (lat1 * pi / 180) * sin (lat2 * pi / 180)
                      + cos (lat1 * pi / 180) * cos (lat2 * pi / 180)
                        * cos ((lon2 - lon1) * pi / 180))"

section \<open>Auxiliary definitions\<close>

text \<open>What the loop of \<open>recompute_rating_stats\<close> does to the record it finds.\<close>

definition with_stats :: "int list \<Rightarrow> Toilet \<Rightarrow> Toilet" where
  "with_stats scores t =
     (if scores \<noteq> [] then
        t\<lparr> avg_cleanliness := Some (real_of_int (sum_list scores) / real (length scores)),
           rating_count := int (length scores) \<rparr>
      else t\<lparr> avg_cleanliness := None, rating_count := 0 \<rparr>)"

text \<open>The value \<open>haversine_km\<close> returns when neither square root raises.\<close>

definition haversine_value :: "real \<Rightarrow> real \<Rightarrow> real \<Rightarrow> real \<Rightarrow> real" where
  "haversine_value lat1 lon1 lat2 lon2 =
     (let a = haversine_a lat1 lon1 lat2 lon2
      in 6371.0 * (2 * math_atan2 (sqrt a) (sqrt (1 - a))))"

text \<open>
  The last two statements of \<open>haversine_km\<close> (the square roots, \<^verbatim>\<open>atan2\<close> and the
  product with the radius) as a function of the value the variable \<^verbatim>\<open>a\<close> has
  when they run.
\<close>

definition haversine_km_of_a :: "real \<Rightarrow> error + real" where
  "haversine_km_of_a a =
     (case math_sqrt a of
        Inl e \<Rightarrow> Inl e
      | Inr s1 \<Rightarrow>
          (case math_sqrt (1 - a) of
             Inl e \<Rightarrow> Inl e
           | Inr s2 \<Rightarrow> Inr (6371.0 * (2 * math_atan2 s1 s2))))"

text \<open>
  The invariant of the states the endpoints can reach: identifiers are
  distinct and below the counter, every rating event refers to an identifier
  below the counter, and the cached statistics are consistent.
\<close>

definition store_inv :: "state \<Rightarrow> bool" where
  "store_inv st \<longleftrightarrow>
     distinct (map id' (toilets_db st)) \<and>
     (\<forall>t\<in>set (toilets_db st). id' t < next_toilet_id st) \<and>
     (\<forall>r\<in>set (ratings_db st). toilet_id r < next_toilet_id st) \<and>
     consistent st"

section \<open>Example data\<close>

text \<open>The record of the spec's scenario, the request that creates it, and a store that holds it.\<close>

definition example_create :: ToiletCreate where
  "example_create =
     \<lparr> ToiletCreate.name = ''Central Park North'', ToiletCreate.latitude = 40.7829,
       ToiletCreate.longitude = -73.9654, ToiletCreate.is_free = True,
       ToiletCreate.wheelchair = None, ToiletCreate.running_water = None,
       ToiletCreate.indoor = None, ToiletCreate.open_in_winter = None,
       ToiletCreate.gender_neutral = None, ToiletCreate.baby_change = None,
       ToiletCreate.menstrual_products = None \<rparr>"

definition example_toilet :: Toilet where
  "example_toilet =
     \<lparr> id' = 1, name = ''Central Park North'', latitude = 40.7829, longitude = -73.9654,
       is_free = True, wheelchair = None, running_water = None, indoor = None,
       open_in_winter = None, gender_neutral = None, baby_change = None,
       menstrual_products = None, avg_cleanliness = None, rating_count = 0 \<rparr>"

definition example_state :: state where
  "example_state = \<lparr> toilets_db = [example_toilet], ratings_db = [], next_toilet_id = 2 \<rparr>"

text \<open>A request whose name is the empty string.\<close>

definition nameless :: ToiletCreate where
  "nameless =
     \<lparr> ToiletCreate.name = [], ToiletCreate.latitude = 0, ToiletCreate.longitude = 0,
       ToiletCreate.is_free = True, ToiletCreate.wheelchair = None,
       ToiletCreate.running_water = None, ToiletCreate.indoor = None,
       ToiletCreate.open_in_winter = None, ToiletCreate.gender_neutral = None,
       ToiletCreate.baby_change = None, ToiletCreate.menstrual_products = None \<rparr>"

text \<open>
  A store with two records, the first rated 3 and 4, and the same store after
  a further rating of 5 for the first record.
\<close>

definition second_toilet :: Toilet where
  "second_toilet =
     \<lparr> id' = 2, name = ''Bryant Park'', latitude = 40.7536, longitude = -73.9832,
       is_free = False, wheelchair = Some True, running_water = Some True,
       indoor = Some False, open_in_winter = None, gender_neutral = None,
       baby_change = Some True, menstrual_products = None,
       avg_cleanliness = None, rating_count = 0 \<rparr>"

definition rate :: "int \<Rightarrow> RatingCreate" where
  "rate c = \<lparr> RatingCreate.cleanliness = c, RatingCreate.comment = None \<rparr>"

definition rated_state :: state where
  "rated_state =
     \<lparr> toilets_db = [example_toilet\<lparr> avg_cleanliness := Some 3.5, rating_count := 2 \<rparr>,
                     second_toilet],
       ratings_db = [\<lparr> toilet_id = 1, cleanliness = 3, comment = None \<rparr>,
                     \<lparr> toilet_id = 1, cleanliness = 4, comment = None \<rparr>],
       next_toilet_id = 3 \<rparr>"

definition rated_state' :: state where
  "rated_state' =
     \<lparr> toilets_db = [example_toilet\<lparr> avg_cleanliness := Some 4, rating_count := 3 \<rparr>,
                     second_toilet],
       ratings_db = [\<lparr> toilet_id = 1, cleanliness = 3, comment = None \<rparr>,
                     \<lparr> toilet_id = 1, cleanliness = 4, comment = None \<rparr>,
                     \<lparr> toilet_id = 1, cleanliness = 5, comment = None \<rparr>],
       next_toilet_id = 3 \<rparr>"

text \<open>A run of requests from the start of the process, some of which fail.\<close>

definition example_requests :: "request list" where
  "example_requests =
     [Create example_create, Get 1, Submit 1 (rate 3), Submit 1 (rate 4), Submit 1 (rate 6),
      Submit 7 (rate 2), Submit 1 (rate 5), Get 7]"

lemmas example_defs =
  example_toilet_def second_toilet_def rated_state_def rated_state'_def rate_def
  example_create_def example_state_def init_state_def

section \<open>Lookup by identifier\<close>

lemma get_loop_absent:
  "\<forall>t\<in>set ts. id' t \<noteq> tid \<Longrightarrow> get_loop tid ts = Inl (HTTPException 404 detail_404)"
  by (induction ts) auto

lemma get_loop_present:
  "t \<in> set ts \<Longrightarrow> \<exists>u. get_loop (id' t) ts = Inr u \<and> id' u = id' t \<and> u \<in> set ts"
  by (induction ts) auto

lemma first_with_id_absent: "\<forall>t\<in>set ts. id' t \<noteq> tid \<Longrightarrow> first_with_id tid ts = None"
  by (induction ts) auto

section \<open>Rejected rating submissions\<close>

text \<open>
  Claim C5. A submission whose cleanliness is not between 1 and 5 raises the
  400 exception (the spec's \<open>InvalidInput\<close>) and leaves the whole state as it
  was: no rating event is appended and no record changes.
\<close>

theorem add_rating_out_of_range:
  "\<not> (1 \<le> RatingCreate.cleanliness rating \<and> RatingCreate.cleanliness rating \<le> 5) \<Longrightarrow>
   add_rating tid rating st = (Inl (HTTPException 400 detail_400), st)"
  by (simp add: add_rating_def)

theorem add_rating_out_of_range_witness:
  "add_rating 1 \<lparr> RatingCreate.cleanliness = 0, RatingCreate.comment = None \<rparr> example_state
     = (Inl (HTTPException 400 detail_400), example_state)
   \<and> add_rating 1 \<lparr> RatingCreate.cleanliness = 6, RatingCreate.comment = Some ''dirty'' \<rparr> example_state
     = (Inl (HTTPException 400 detail_400), example_state)"
  using add_rating_out_of_range
          [of "\<lparr> RatingCreate.cleanliness = 0, RatingCreate.comment = None \<rparr>" 1 example_state]
        add_rating_out_of_range
          [of "\<lparr> RatingCreate.cleanliness = 6, RatingCreate.comment = Some ''dirty'' \<rparr>" 1 example_state]
  by simp

text \<open>
  Claim C6. When no record has the identifier, \<open>get_toilet\<close> raises the 404
  exception (the spec's \<open>NotFound\<close>), and so does \<open>add_rating\<close> with a cleanliness
  in range, leaving the records and the rating events unchanged. When some
  record has the identifier, \<open>get_toilet\<close> returns a stored record with that
  identifier.
\<close>

theorem not_found:
  "((\<forall>t\<in>set (toilets_db st). id' t \<noteq> tid) \<longrightarrow>
      get_toilet tid st = Inl (HTTPException 404 detail_404) \<and>
      (1 \<le> RatingCreate.cleanliness rating \<and> RatingCreate.cleanliness rating \<le> 5 \<longrightarrow>
         add_rating tid rating st = (Inl (HTTPException 404 detail_404), st)))
   \<and> ((\<exists>t\<in>set (toilets_db st). id' t = tid) \<longrightarrow>
      (\<exists>t. get_toilet tid st = Inr t \<and> id' t = tid \<and> t \<in> set (toilets_db st)))"
  using get_loop_present [of _ "toilets_db st"]
  by (auto simp: get_toilet_def add_rating_def get_loop_absent first_with_id_absent)

theorem not_found_witness:
  "get_toilet 7 example_state = Inl (HTTPException 404 detail_404)
   \<and> add_rating 7 \<lparr> RatingCreate.cleanliness = 3, RatingCreate.comment = None \<rparr> example_state
       = (Inl (HTTPException 404 detail_404), example_state)
   \<and> get_toilet 1 example_state = Inr example_toilet"
  using not_found [of example_state 7 "\<lparr> RatingCreate.cleanliness = 3, RatingCreate.comment = None \<rparr>"]
        not_found [of example_state 1 "\<lparr> RatingCreate.cleanliness = 3, RatingCreate.comment = None \<rparr>"]
  by (auto simp: example_state_def example_toilet_def)

text \<open>
  Claim C10. The range check of \<open>add_rating\<close> comes before the lookup: a
  submission with a cleanliness out of range and an identifier that no record
  has (one that \<open>get_toilet\<close> answers with 404) raises the 400 exception, not
  the 404 one.
\<close>

theorem range_check_first:
  "\<not> (1 \<le> RatingCreate.cleanliness rating \<and> RatingCreate.cleanliness rating \<le> 5) \<Longrightarrow>
   \<forall>t\<in>set (toilets_db st). id' t \<noteq> tid \<Longrightarrow>
   fst (add_rating tid rating st) = Inl (HTTPException 400 detail_400)
   \<and> fst (add_rating tid rating st) \<noteq> Inl (HTTPException 404 detail_404)
   \<and> get_toilet tid st = Inl (HTTPException 404 detail_404)"
  by (simp add: add_rating_def get_toilet_def get_loop_absent)

theorem range_check_first_witness:
  "fst (add_rating 7 \<lparr> RatingCreate.cleanliness = 9, RatingCreate.comment = None \<rparr> example_state)
     = Inl (HTTPException 400 detail_400)
   \<and> get_toilet 7 example_state = Inl (HTTPException 404 detail_404)"
  using range_check_first
          [of "\<lparr> RatingCreate.cleanliness = 9, RatingCreate.comment = None \<rparr>" example_state 7]
  by (simp add: example_state_def example_toilet_def)

section \<open>Recomputation of the rating statistics\<close>

lemma first_with_id_Some:
  "first_with_id tid ts = Some i \<Longrightarrow>
   i < length ts \<and> id' (ts ! i) = tid \<and> (\<forall>j<i. id' (ts ! j) \<noteq> tid)"
proof (induction ts arbitrary: i)
  case Nil
  then show ?case by simp
next
  case (Cons t ts)
  show ?case
  proof (cases "id' t = tid")
    case True
    with Cons.prems show ?thesis by simp
  next
    case False
    with Cons.prems obtain k where k: "first_with_id tid ts = Some k" "i = Suc k" by auto
    from Cons.IH [OF k(1)] False k(2) show ?thesis
      by (auto simp: nth_Cons split: nat.splits)
  qed
qed

lemma recompute_loop_Cons:
  "recompute_loop tid scores (t # ts) =
     (if id' t = tid then with_stats scores t # ts else t # recompute_loop tid scores ts)"
  by (simp add: with_stats_def)

text \<open>The loop rewrites the list at one position: that of the first record with the identifier.\<close>

lemma recompute_loop_update:
  "first_with_id tid ts = Some i \<Longrightarrow>
   recompute_loop tid scores ts = ts[i := with_stats scores (ts ! i)]"
proof (induction ts arbitrary: i)
  case Nil
  then show ?case by simp
next
  case (Cons t ts)
  show ?case
  proof (cases "id' t = tid")
    case True
    with Cons.prems show ?thesis by (simp only: recompute_loop_Cons) simp
  next
    case False
    with Cons.prems obtain k where k: "first_with_id tid ts = Some k" "i = Suc k" by auto
    from Cons.IH [OF k(1)] False k(2) show ?thesis
      by (simp only: recompute_loop_Cons) simp
  qed
qed

lemma recompute_loop_absent:
  "first_with_id tid ts = None \<Longrightarrow> recompute_loop tid scores ts = ts"
proof (induction ts)
  case Nil
  then show ?case by simp
next
  case (Cons t ts)
  then have "id' t \<noteq> tid" "first_with_id tid ts = None" by (auto split: if_splits)
  with Cons.IH show ?case by (simp only: recompute_loop_Cons) simp
qed

declare recompute_loop.simps(2) [simp del]

lemma get_loop_first:
  "get_loop tid ts =
     (case first_with_id tid ts of
        None \<Rightarrow> Inl (HTTPException 404 detail_404)
      | Some i \<Rightarrow> Inr (ts ! i))"
  by (induction ts) (auto split: option.splits)

lemma first_with_id_update:
  "id' u = id' (ts ! i) \<Longrightarrow> i < length ts \<Longrightarrow>
   first_with_id tid (ts[i := u]) = first_with_id tid ts"
proof (induction ts arbitrary: i)
  case Nil
  then show ?case by simp
next
  case (Cons t ts)
  then show ?case by (cases i) auto
qed

lemma id_with_stats: "id' (with_stats scores t) = id' t"
  by (simp add: with_stats_def)

lemma with_stats_restore:
  "(with_stats scores t)\<lparr> avg_cleanliness := avg_cleanliness t, rating_count := rating_count t \<rparr> = t"
  by (simp add: with_stats_def)

lemma scores_of_append:
  "scores_of tid (rs @ [r]) =
     (if toilet_id r = tid then scores_of tid rs @ [cleanliness r] else scores_of tid rs)"
  by (simp add: scores_of_def)

lemma scores_of_none: "\<forall>r\<in>set rs. toilet_id r \<noteq> tid \<Longrightarrow> scores_of tid rs = []"
  by (simp add: scores_of_def filter_empty_conv)

section \<open>Accepted rating submissions\<close>

lemma add_rating_failure: "add_rating tid rating st = (Inl e, st') \<Longrightarrow> st' = st"
  by (auto simp: add_rating_def Let_def split: if_splits option.splits)

text \<open>What a submission that returns a record has done to the state.\<close>

lemma add_rating_success:
  assumes "add_rating tid rating st = (Inr t, st')"
  obtains i where
    "first_with_id tid (toilets_db st) = Some i"
    "1 \<le> RatingCreate.cleanliness rating" "RatingCreate.cleanliness rating \<le> 5"
    "ratings_db st' = ratings_db st @
       [\<lparr> toilet_id = tid, cleanliness = RatingCreate.cleanliness rating,
          comment = RatingCreate.comment rating \<rparr>]"
    "toilets_db st' =
       (toilets_db st)[i := with_stats (scores_of tid (ratings_db st')) (toilets_db st ! i)]"
    "next_toilet_id st' = next_toilet_id st"
    "t = toilets_db st' ! i"
proof -
  from assms have rng: "1 \<le> RatingCreate.cleanliness rating" "RatingCreate.cleanliness rating \<le> 5"
    by (auto simp: add_rating_def split: if_splits)
  with assms obtain i where i: "first_with_id tid (toilets_db st) = Some i"
    by (cases "first_with_id tid (toilets_db st)") (auto simp: add_rating_def)
  let ?rs = "ratings_db st @
    [\<lparr> toilet_id = tid, cleanliness = RatingCreate.cleanliness rating,
       comment = RatingCreate.comment rating \<rparr>]"
  let ?ts = "(toilets_db st)[i := with_stats (scores_of tid ?rs) (toilets_db st ! i)]"
  have st': "st' = st\<lparr> ratings_db := ?rs, toilets_db := ?ts \<rparr>" and t: "t = ?ts ! i"
    using assms rng i
    by (simp_all add: add_rating_def recompute_rating_stats_def Let_def recompute_loop_update)
  show thesis
    by (rule that [OF i rng]) (simp_all add: st' t)
qed

lemma add_rating_example:
  "add_rating 1 (rate 5) rated_state
     = (Inr (example_toilet\<lparr> avg_cleanliness := Some 4, rating_count := 3 \<rparr>), rated_state')"
  by (simp add: add_rating_def recompute_rating_stats_def scores_of_def recompute_loop_Cons
        with_stats_def Let_def example_defs)

text \<open>
  Claim C1. In any state, a submission that succeeds appends one rating event
  and returns a record whose \<open>avg_cleanliness\<close> is the mean of the cleanliness
  values of all events with the identifier, in the log as the submission
  leaves it, and whose \<open>rating_count\<close> is their number; that record is the one
  \<open>get_toilet\<close> then returns for the identifier. A recomputation for an
  identifier with no events sets \<open>avg_cleanliness\<close> to null and \<open>rating_count\<close>
  to 0, and one with events sets them to the mean and the number of events.
\<close>

theorem rating_stats:
  "(add_rating tid rating st = (Inr t, st') \<longrightarrow>
      ratings_db st' = ratings_db st @
        [\<lparr> toilet_id = tid, cleanliness = RatingCreate.cleanliness rating,
           comment = RatingCreate.comment rating \<rparr>] \<and>
      avg_cleanliness t = Some (mean (scores_of tid (ratings_db st'))) \<and>
      rating_count t = int (length (scores_of tid (ratings_db st'))) \<and>
      get_toilet tid st' = Inr t)
   \<and> (get_toilet tid (recompute_rating_stats tid st) = Inr u \<longrightarrow>
      (if scores_of tid (ratings_db st) = [] then
         avg_cleanliness u = None \<and> rating_count u = 0
       else
         avg_cleanliness u = Some (mean (scores_of tid (ratings_db st))) \<and>
         rating_count u = int (length (scores_of tid (ratings_db st)))))"
proof (intro conjI impI)
  assume a: "add_rating tid rating st = (Inr t, st')"
  then obtain i where i: "first_with_id tid (toilets_db st) = Some i"
    and rs: "ratings_db st' = ratings_db st @
        [\<lparr> toilet_id = tid, cleanliness = RatingCreate.cleanliness rating,
           comment = RatingCreate.comment rating \<rparr>]"
    and ts: "toilets_db st' =
        (toilets_db st)[i := with_stats (scores_of tid (ratings_db st')) (toilets_db st ! i)]"
    and t: "t = toilets_db st' ! i"
    by (rule add_rating_success)
  from first_with_id_Some [OF i] have len: "i < length (toilets_db st)" by auto
  have ne: "scores_of tid (ratings_db st') \<noteq> []"
    by (simp add: rs scores_of_append)
  have t': "t = with_stats (scores_of tid (ratings_db st')) (toilets_db st ! i)"
    using t ts len by simp
  show "ratings_db st' = ratings_db st @
        [\<lparr> toilet_id = tid, cleanliness = RatingCreate.cleanliness rating,
           comment = RatingCreate.comment rating \<rparr>]"
    by (rule rs)
  show "avg_cleanliness t = Some (mean (scores_of tid (ratings_db st')))"
    using ne by (simp add: t' with_stats_def mean_def)
  show "rating_count t = int (length (scores_of tid (ratings_db st')))"
    using ne by (simp add: t' with_stats_def)
  have "first_with_id tid (toilets_db st') = Some i"
    unfolding ts using first_with_id_update [of _ "toilets_db st" i tid] len i
    by (simp add: id_with_stats)
  then show "get_toilet tid st' = Inr t"
    by (simp add: get_toilet_def get_loop_first t)
next
  assume g: "get_toilet tid (recompute_rating_stats tid st) = Inr u"
  let ?sc = "scores_of tid (ratings_db st)"
  show "if ?sc = [] then avg_cleanliness u = None \<and> rating_count u = 0
        else avg_cleanliness u = Some (mean ?sc) \<and> rating_count u = int (length ?sc)"
  proof (cases "first_with_id tid (toilets_db st)")
    case None
    with g show ?thesis
      by (simp add: get_toilet_def recompute_rating_stats_def Let_def recompute_loop_absent
            get_loop_first)
  next
    case (Some i)
    from first_with_id_Some [OF Some] have len: "i < length (toilets_db st)" by simp
    have "first_with_id tid ((toilets_db st)[i := with_stats ?sc (toilets_db st ! i)]) = Some i"
      using first_with_id_update [of _ "toilets_db st" i tid] len Some
      by (simp add: id_with_stats)
    with g len have "u = with_stats ?sc (toilets_db st ! i)"
      by (simp add: get_toilet_def recompute_rating_stats_def Let_def
            recompute_loop_update [OF Some] get_loop_first)
    then show ?thesis by (simp add: with_stats_def mean_def)
  qed
qed

text \<open>
  The spec's example: after the ratings 3, 4 and 5 the record has the average
  4 and the count 3; a record with no rating has null and 0.
\<close>

theorem rating_stats_witness:
  "add_rating 1 (rate 5) rated_state
     = (Inr (example_toilet\<lparr> avg_cleanliness := Some 4, rating_count := 3 \<rparr>), rated_state')
   \<and> mean (scores_of 1 (ratings_db rated_state')) = 4
   \<and> int (length (scores_of 1 (ratings_db rated_state'))) = 3
   \<and> get_toilet 1 rated_state'
       = Inr (example_toilet\<lparr> avg_cleanliness := Some 4, rating_count := 3 \<rparr>)
   \<and> scores_of 2 (ratings_db rated_state) = []
   \<and> get_toilet 2 (recompute_rating_stats 2 rated_state) = Inr second_toilet
   \<and> avg_cleanliness second_toilet = None \<and> rating_count second_toilet = 0"
  using rating_stats [of 1 "rate 5" rated_state
          "example_toilet\<lparr> avg_cleanliness := Some 4, rating_count := 3 \<rparr>" rated_state']
    rating_stats [of 2 "rate 5" rated_state second_toilet rated_state second_toilet]
    add_rating_example
  by (simp add: get_toilet_def recompute_rating_stats_def scores_of_def recompute_loop_Cons
        with_stats_def mean_def Let_def example_defs)

text \<open>
  Claim C8. A submission that succeeds leaves the number of records and the
  identifier counter as they were. At every position of the store, the record
  after the submission differs from the record before it in \<open>avg_cleanliness\<close>
  and \<open>rating_count\<close> at most (putting the two old values back gives the old
  record, so the identifier, the name, the coordinates, \<open>is_free\<close> and the
  amenity flags are unchanged), and a record with another identifier is
  unchanged altogether.
\<close>

theorem add_rating_frame:
  "add_rating tid rating st = (Inr t, st') \<Longrightarrow>
   length (toilets_db st') = length (toilets_db st) \<and>
   next_toilet_id st' = next_toilet_id st \<and>
   (\<forall>i<length (toilets_db st).
      (toilets_db st' ! i)\<lparr> avg_cleanliness := avg_cleanliness (toilets_db st ! i),
                             rating_count := rating_count (toilets_db st ! i) \<rparr>
        = toilets_db st ! i
      \<and> (id' (toilets_db st ! i) \<noteq> tid \<longrightarrow> toilets_db st' ! i = toilets_db st ! i))"
proof -
  assume "add_rating tid rating st = (Inr t, st')"
  then obtain k where k: "first_with_id tid (toilets_db st) = Some k"
    and ts: "toilets_db st' =
        (toilets_db st)[k := with_stats (scores_of tid (ratings_db st')) (toilets_db st ! k)]"
    and nx: "next_toilet_id st' = next_toilet_id st"
    by (rule add_rating_success)
  from first_with_id_Some [OF k] have idk: "id' (toilets_db st ! k) = tid" by simp
  have "(toilets_db st' ! i)\<lparr> avg_cleanliness := avg_cleanliness (toilets_db st ! i),
                               rating_count := rating_count (toilets_db st ! i) \<rparr>
          = toilets_db st ! i
        \<and> (id' (toilets_db st ! i) \<noteq> tid \<longrightarrow> toilets_db st' ! i = toilets_db st ! i)"
    if "i < length (toilets_db st)" for i
  proof (cases "i = k")
    case True
    with that idk show ?thesis by (simp add: ts with_stats_restore)
  next
    case False
    then show ?thesis by (simp add: ts)
  qed
  then show ?thesis by (simp add: ts nx)
qed

theorem add_rating_frame_witness:
  "add_rating 1 (rate 5) rated_state
     = (Inr (example_toilet\<lparr> avg_cleanliness := Some 4, rating_count := 3 \<rparr>), rated_state')
   \<and> length (toilets_db rated_state') = length (toilets_db rated_state)
   \<and> (toilets_db rated_state' ! 0)\<lparr> avg_cleanliness := Some 3.5, rating_count := 2 \<rparr>
       = toilets_db rated_state ! 0
   \<and> toilets_db rated_state' ! 1 = toilets_db rated_state ! 1"
  using add_rating_frame [of 1 "rate 5" rated_state
          "example_toilet\<lparr> avg_cleanliness := Some 4, rating_count := 3 \<rparr>" rated_state']
    add_rating_example
  by (simp add: example_defs)

section \<open>Creating records\<close>

lemma create_toilet_fields:
  "id' (fst (create_toilet c st)) = next_toilet_id st"
  "name (fst (create_toilet c st)) = ToiletCreate.name c"
  "avg_cleanliness (fst (create_toilet c st)) = None"
  "rating_count (fst (create_toilet c st)) = 0"
  by (simp_all add: create_toilet_def Let_def)

lemma create_toilet_state:
  "snd (create_toilet c st) =
     st\<lparr> toilets_db := toilets_db st @ [fst (create_toilet c st)],
         next_toilet_id := next_toilet_id st + 1 \<rparr>"
  by (simp add: create_toilet_def Let_def)

text \<open>A sequence of creations from any state: the identifiers count up from the counter.\<close>

lemma create_all_from:
  "map id' (fst (create_all cs st))
     = [next_toilet_id st .. next_toilet_id st + int (length cs) - 1]
   \<and> toilets_db (snd (create_all cs st)) = toilets_db st @ fst (create_all cs st)
   \<and> ratings_db (snd (create_all cs st)) = ratings_db st
   \<and> next_toilet_id (snd (create_all cs st)) = next_toilet_id st + int (length cs)
   \<and> (\<forall>t\<in>set (fst (create_all cs st)). avg_cleanliness t = None \<and> rating_count t = 0)"
proof (induction cs arbitrary: st)
  case Nil
  show ?case by simp
next
  case (Cons c cs)
  let ?new = "fst (create_toilet c st)" and ?st1 = "snd (create_toilet c st)"
  have step: "create_all (c # cs) st = (?new # fst (create_all cs ?st1), snd (create_all cs ?st1))"
    by (simp add: split_beta)
  have nx: "next_toilet_id ?st1 = next_toilet_id st + 1"
    and ts: "toilets_db ?st1 = toilets_db st @ [?new]"
    and rs: "ratings_db ?st1 = ratings_db st"
    by (simp_all add: create_toilet_state)
  have up: "[next_toilet_id st .. next_toilet_id st + int (length (c # cs)) - 1]
        = next_toilet_id st # [next_toilet_id st + 1 .. next_toilet_id st + 1 + int (length cs) - 1]"
    by (subst upto_rec1) (simp_all add: algebra_simps)
  from Cons.IH [of ?st1] show ?case
    unfolding step up by (simp add: nx ts rs create_toilet_fields)
qed

text \<open>Only a creation moves the identifier counter.\<close>

lemma handle_next:
  "next_toilet_id (snd (handle q st)) = next_toilet_id st + (if is_create q then 1 else 0)"
proof (cases q)
  case (Create c)
  then show ?thesis by (simp add: split_beta create_toilet_state)
next
  case (ListWithin lat lng r)
  then show ?thesis by (simp split: sum.splits)
next
  case (Get tid)
  then show ?thesis by (simp split: sum.splits)
next
  case (Submit tid rating)
  show ?thesis
  proof (cases "add_rating tid rating st")
    case (Pair res st')
    show ?thesis
    proof (cases res)
      case (Inl e)
      with Pair have "st' = st" by (auto dest: add_rating_failure)
      with Pair Inl Submit show ?thesis by simp
    next
      case (Inr t)
      with Pair have "next_toilet_id st' = next_toilet_id st" by (auto elim: add_rating_success)
      with Pair Inr Submit show ?thesis by simp
    qed
  qed
qed

lemma serve_next:
  "next_toilet_id (snd (serve qs st)) = next_toilet_id st + int (length (filter is_create qs))"
proof (induction qs arbitrary: st)
  case Nil
  show ?case by simp
next
  case (Cons q qs)
  have "snd (serve (q # qs) st) = snd (serve qs (snd (handle q st)))"
    by (simp add: split_beta)
  then show ?case by (simp add: Cons.IH handle_next)
qed

text \<open>
  Claim C3. The records returned by a sequence of creations from the start of
  the process have the identifiers 1, 2, 3, ... in order, hence pairwise
  distinct; they are the records of the store, in the order of their creation,
  each with \<open>avg_cleanliness\<close> null and \<open>rating_count\<close> 0. With other requests
  in between, the creation that follows a run of requests returns the number
  of creations in the run plus one. In any state, \<open>create_toilet\<close> appends the
  record it returns and moves the counter past its identifier.
\<close>

theorem create_toilet_ids:
  "map id' (fst (create_all cs init_state)) = [1 .. int (length cs)]
   \<and> distinct (map id' (fst (create_all cs init_state)))
   \<and> toilets_db (snd (create_all cs init_state)) = fst (create_all cs init_state)
   \<and> (\<forall>t\<in>set (fst (create_all cs init_state)). avg_cleanliness t = None \<and> rating_count t = 0)
   \<and> id' (fst (create_toilet c (snd (serve qs init_state))))
       = int (length (filter is_create qs)) + 1
   \<and> avg_cleanliness (fst (create_toilet c st)) = None
   \<and> rating_count (fst (create_toilet c st)) = 0
   \<and> toilets_db (snd (create_toilet c st)) = toilets_db st @ [fst (create_toilet c st)]
   \<and> next_toilet_id (snd (create_toilet c st)) = id' (fst (create_toilet c st)) + 1"
proof -
  have ids: "map id' (fst (create_all cs init_state)) = [1 .. int (length cs)]"
    using create_all_from [of cs init_state] by (simp add: init_state_def)
  have "distinct (map id' (fst (create_all cs init_state)))"
    unfolding ids by simp
  moreover have "id' (fst (create_toilet c (snd (serve qs init_state))))
      = int (length (filter is_create qs)) + 1"
    by (simp add: create_toilet_fields serve_next init_state_def)
  ultimately show ?thesis
    using ids create_all_from [of cs init_state]
    by (simp add: create_toilet_fields create_toilet_state init_state_def)
qed

theorem create_toilet_ids_witness:
  "map id' (fst (create_all [example_create, nameless, example_create] init_state)) = [1, 2, 3]
   \<and> id' (fst (create_toilet nameless (snd (serve example_requests init_state)))) = 2"
  using create_toilet_ids
          [of "[example_create, nameless, example_create]" nameless example_requests init_state]
  by (simp add: example_requests_def upto_rec1)

text \<open>
  Claim C9, as stated, fails: \<open>create_toilet\<close> does not look at the name, and the
  request class declares it as a plain string. A request with the empty name
  is accepted and its record is stored.
\<close>

theorem empty_name_accepted:
  "name (fst (create_toilet nameless init_state)) = []
   \<and> toilets_db (snd (create_toilet nameless init_state))
       = [fst (create_toilet nameless init_state)]"
  by (simp add: create_toilet_def Let_def nameless_def init_state_def)

text \<open>
  Claim C9, amended. The name of a record is a text label, empty or not: the
  record \<open>create_toilet\<close> returns and stores has the name of the request,
  whatever it is.
\<close>

theorem create_toilet_keeps_name:
  "name (fst (create_toilet toilet st)) = ToiletCreate.name toilet
   \<and> last (toilets_db (snd (create_toilet toilet st))) = fst (create_toilet toilet st)"
  by (simp add: create_toilet_def Let_def)

section \<open>Consistency of the cached statistics\<close>

lemma stats_consistent_with_stats:
  "stats_consistent rs (with_stats (scores_of (id' t) rs) t)"
  by (simp add: stats_consistent_def with_stats_def mean_def Let_def)

lemma stats_consistent_other:
  "toilet_id r \<noteq> id' t \<Longrightarrow> stats_consistent (rs @ [r]) t = stats_consistent rs t"
  by (simp add: stats_consistent_def scores_of_append)

lemma stats_consistent_new:
  assumes "\<forall>r\<in>set rs. toilet_id r < next_toilet_id st"
  shows "stats_consistent rs (fst (create_toilet c st))"
proof -
  from assms have "scores_of (next_toilet_id st) rs = []"
    by (intro scores_of_none) auto
  then show ?thesis
    by (simp add: stats_consistent_def create_toilet_fields)
qed

lemma store_inv_init: "store_inv init_state"
  by (simp add: store_inv_def consistent_def init_state_def)

lemma store_inv_create:
  assumes inv: "store_inv st"
  shows "store_inv (snd (create_toilet c st))"
proof -
  let ?new = "fst (create_toilet c st)"
  have ts: "toilets_db (snd (create_toilet c st)) = toilets_db st @ [?new]"
    and rs: "ratings_db (snd (create_toilet c st)) = ratings_db st"
    and nx: "next_toilet_id (snd (create_toilet c st)) = next_toilet_id st + 1"
    by (simp_all add: create_toilet_state)
  from inv have d: "distinct (map id' (toilets_db st))"
    and lt: "\<forall>t\<in>set (toilets_db st). id' t < next_toilet_id st"
    and rlt: "\<forall>r\<in>set (ratings_db st). toilet_id r < next_toilet_id st"
    and con: "\<forall>t\<in>set (toilets_db st). stats_consistent (ratings_db st) t"
    by (simp_all add: store_inv_def consistent_def)
  have "distinct (map id' (toilets_db st @ [?new]))"
    using d lt by (auto simp: create_toilet_fields)
  moreover have "\<forall>t\<in>set (toilets_db st @ [?new]). id' t < next_toilet_id st + 1"
    using lt by (auto simp: create_toilet_fields)
  moreover have "\<forall>r\<in>set (ratings_db st). toilet_id r < next_toilet_id st + 1"
    using rlt by auto
  moreover have "\<forall>t\<in>set (toilets_db st @ [?new]). stats_consistent (ratings_db st) t"
    using con stats_consistent_new [OF rlt, of c] by auto
  ultimately show ?thesis
    unfolding store_inv_def consistent_def ts rs nx by blast
qed

lemma store_inv_add_rating:
  assumes inv: "store_inv st"
  shows "store_inv (snd (add_rating tid rating st))"
proof (cases "add_rating tid rating st")
  case (Pair res st')
  show ?thesis
  proof (cases res)
    case (Inl e)
    with Pair have "st' = st" by (auto dest: add_rating_failure)
    with Pair inv show ?thesis by simp
  next
    case (Inr t)
    let ?r = "\<lparr> toilet_id = tid, cleanliness = RatingCreate.cleanliness rating,
                comment = RatingCreate.comment rating \<rparr>"
    let ?ts = "toilets_db st" and ?rs = "ratings_db st"
    from Pair Inr obtain k where k: "first_with_id tid ?ts = Some k"
      and rs': "ratings_db st' = ?rs @ [?r]"
      and ts': "toilets_db st' = ?ts[k := with_stats (scores_of tid (ratings_db st')) (?ts ! k)]"
      and nx: "next_toilet_id st' = next_toilet_id st"
      by (auto elim: add_rating_success)
    from first_with_id_Some [OF k] have len: "k < length ?ts" and idk: "id' (?ts ! k) = tid"
      by auto
    from inv have d: "distinct (map id' ?ts)"
      and lt: "\<forall>t\<in>set ?ts. id' t < next_toilet_id st"
      and rlt: "\<forall>r\<in>set ?rs. toilet_id r < next_toilet_id st"
      and con: "\<forall>t\<in>set ?ts. stats_consistent ?rs t"
      by (simp_all add: store_inv_def consistent_def)
    let ?u = "with_stats (scores_of tid (?rs @ [?r])) (?ts ! k)"
    have idu: "id' ?u = tid" by (simp add: id_with_stats idk)
    have ids: "map id' (?ts[k := ?u]) = map id' ?ts"
      using len idk by (simp add: map_update idu list_update_same_conv)
    have 1: "distinct (map id' (?ts[k := ?u]))"
      unfolding ids by (rule d)
    have bound: "tid < next_toilet_id st"
      using lt len idk by (metis nth_mem)
    have mem: "t \<in> set ?ts \<or> t = ?u" if "t \<in> set (?ts[k := ?u])" for t
      using that set_update_subset_insert [of ?ts k ?u] by auto
    have 2: "\<forall>t\<in>set (?ts[k := ?u]). id' t < next_toilet_id st"
    proof
      fix t assume "t \<in> set (?ts[k := ?u])"
      with mem have "t \<in> set ?ts \<or> t = ?u" by blast
      then show "id' t < next_toilet_id st" using lt bound idu by auto
    qed
    have 3: "\<forall>r\<in>set (?rs @ [?r]). toilet_id r < next_toilet_id st"
      using rlt bound by auto
    have 4: "\<forall>t\<in>set (?ts[k := ?u]). stats_consistent (?rs @ [?r]) t"
    proof
      fix t assume t: "t \<in> set (?ts[k := ?u])"
      then obtain j where j: "j < length ?ts" "t = ?ts[k := ?u] ! j"
        by (auto simp: in_set_conv_nth)
      show "stats_consistent (?rs @ [?r]) t"
      proof (cases "j = k")
        case True
        with j have "t = ?u" by simp
        then show ?thesis
          using stats_consistent_with_stats [of "?rs @ [?r]" "?ts ! k"] by (simp add: idk)
      next
        case False
        with j have tj: "t = ?ts ! j" by simp
        have "id' (?ts ! j) \<noteq> id' (?ts ! k)"
          using d False j(1) len by (simp add: distinct_conv_nth)
        then have "toilet_id ?r \<noteq> id' t" by (simp add: tj idk)
        then have "stats_consistent (?rs @ [?r]) t = stats_consistent ?rs t"
          by (rule stats_consistent_other)
        with con j(1) tj show ?thesis by simp
      qed
    qed
    have "store_inv st'"
      unfolding store_inv_def consistent_def ts' rs' nx using 1 2 3 4 by blast
    with Pair show ?thesis by simp
  qed
qed

lemma store_inv_handle:
  assumes "store_inv st"
  shows "store_inv (snd (handle q st))"
proof (cases q)
  case (Create c)
  with assms show ?thesis by (simp add: split_beta store_inv_create)
next
  case (ListWithin lat lng r)
  with assms show ?thesis by (simp split: sum.splits)
next
  case (Get tid)
  with assms show ?thesis by (simp split: sum.splits)
next
  case (Submit tid rating)
  with store_inv_add_rating [OF assms, of tid rating] show ?thesis
    by (cases "add_rating tid rating st") (simp split: sum.splits)
qed

lemma store_inv_serve: "store_inv st \<Longrightarrow> store_inv (snd (serve qs st))"
proof (induction qs arbitrary: st)
  case Nil
  then show ?case by simp
next
  case (Cons q qs)
  have "snd (serve (q # qs) st) = snd (serve qs (snd (handle q st)))"
    by (simp add: split_beta)
  with Cons.IH [OF store_inv_handle [OF Cons.prems]] show ?case by simp
qed

lemma serve_example:
  "snd (serve example_requests init_state) =
     \<lparr> toilets_db = [example_toilet\<lparr> avg_cleanliness := Some 4, rating_count := 3 \<rparr>],
       ratings_db = [\<lparr> toilet_id = 1, cleanliness = 3, comment = None \<rparr>,
                     \<lparr> toilet_id = 1, cleanliness = 4, comment = None \<rparr>,
                     \<lparr> toilet_id = 1, cleanliness = 5, comment = None \<rparr>],
       next_toilet_id = 2 \<rparr>"
  by (simp add: example_requests_def create_toilet_def get_toilet_def add_rating_def
        recompute_rating_stats_def scores_of_def recompute_loop_Cons with_stats_def
        Let_def example_defs)

text \<open>
  Claim C2. After any sequence of requests from the start of the process
  (creations, lookups, proximity queries and rating submissions, accepted or
  rejected), every record of the store has a \<open>rating_count\<close> equal to the number
  of rating events with its identifier and an \<open>avg_cleanliness\<close> equal to their
  mean, or null when there are none. The sequence is arbitrary, so this holds
  after each of its requests.
\<close>

theorem stats_always_consistent:
  "consistent (snd (serve qs init_state))"
  using store_inv_serve [OF store_inv_init, of qs] by (simp add: store_inv_def)

theorem stats_always_consistent_witness:
  "consistent (snd (serve example_requests init_state))
   \<and> toilets_db (snd (serve example_requests init_state))
       = [example_toilet\<lparr> avg_cleanliness := Some 4, rating_count := 3 \<rparr>]"
  using stats_always_consistent [of example_requests] by (simp add: serve_example)

section \<open>The distance function\<close>

lemma half_angle_cos: "cos x = 2 * (cos (x / 2))\<^sup>2 - 1" for x :: real
proof -
  have "cos x = cos (2 * (x / 2))" by simp
  also have "\<dots> = 2 * (cos (x / 2))\<^sup>2 - 1" by (rule cos_double_cos)
  finally show ?thesis .
qed

lemma half_angle_sin: "cos x = 1 - 2 * (sin (x / 2))\<^sup>2" for x :: real
proof -
  have "cos x = cos (2 * (x / 2))" by simp
  also have "\<dots> = 1 - 2 * (sin (x / 2))\<^sup>2" by (rule cos_double_sin)
  finally show ?thesis .
qed

lemma math_radians_diff: "math_radians (x - y) = math_radians x - math_radians y"
  by (simp add: math_radians_def left_diff_distrib)

lemma math_radians_minus: "math_radians (- x) = - math_radians x"
  by (simp add: math_radians_def)

lemma cos_mult_half:
  "cos p * cos q = (cos ((p + q) / 2))\<^sup>2 - (sin ((q - p) / 2))\<^sup>2" for p q :: real
proof -
  have 1: "cos (p + q) = 2 * (cos ((p + q) / 2))\<^sup>2 - 1"
    by (rule half_angle_cos)
  have 2: "cos (q - p) = 1 - 2 * (sin ((q - p) / 2))\<^sup>2"
    by (rule half_angle_sin)
  have "cos p * cos q = (cos (q - p) + cos (p + q)) / 2"
    by (simp add: cos_add cos_diff)
  then show ?thesis using 1 2 by simp
qed

text \<open>
  The variable \<^verbatim>\<open>a\<close> is a weighted mean of two squares, with the weights
  \<open>1 - s\<close> and \<open>s\<close> for \<open>s\<close> the squared sine of half the difference in longitude.
\<close>

lemma haversine_a_convex:
  "haversine_a lat1 lon1 lat2 lon2 =
     (sin ((math_radians lat2 - math_radians lat1) / 2))\<^sup>2
       * (1 - (sin (math_radians (lon2 - lon1) / 2))\<^sup>2)
     + (cos ((math_radians lat1 + math_radians lat2) / 2))\<^sup>2
       * (sin (math_radians (lon2 - lon1) / 2))\<^sup>2"
  unfolding haversine_a_def Let_def cos_mult_half [of "math_radians lat1" "math_radians lat2"]
    math_radians_diff [of lat2 lat1]
  by (simp add: algebra_simps)

lemma sin_sq_le1: "(sin x)\<^sup>2 \<le> 1" for x :: real
  using abs_sin_le_one [of x] by (simp add: abs_square_le_1)

lemma cos_sq_le1: "(cos x)\<^sup>2 \<le> 1" for x :: real
  using abs_cos_le_one [of x] by (simp add: abs_square_le_1)

lemma convex_bounds:
  fixes S C s :: real
  assumes "0 \<le> S" "S \<le> 1" "0 \<le> C" "C \<le> 1" "0 \<le> s" "s \<le> 1"
  shows "0 \<le> S * (1 - s) + C * s" and "S * (1 - s) + C * s \<le> 1"
proof -
  show "0 \<le> S * (1 - s) + C * s" using assms by simp
  have "S * (1 - s) \<le> 1 * (1 - s)" using assms by (intro mult_right_mono) auto
  moreover have "C * s \<le> 1 * s" using assms by (intro mult_right_mono) auto
  ultimately show "S * (1 - s) + C * s \<le> 1" by simp
qed

text \<open>Neither square root of \<open>haversine_km\<close> gets a negative argument.\<close>

lemma haversine_a_bounds:
  "0 \<le> haversine_a lat1 lon1 lat2 lon2" "haversine_a lat1 lon1 lat2 lon2 \<le> 1"
  unfolding haversine_a_convex
  by (rule convex_bounds; simp add: sin_sq_le1 cos_sq_le1)+

lemma haversine_km_total:
  "haversine_km lat1 lon1 lat2 lon2 = Inr (haversine_value lat1 lon1 lat2 lon2)"
  using haversine_a_bounds [of lat1 lon1 lat2 lon2]
  by (simp add: haversine_km_def haversine_value_def math_sqrt_def Let_def)

lemma haversine_a_sym: "haversine_a lat1 lon1 lat2 lon2 = haversine_a lat2 lon2 lat1 lon1"
proof -
  have 1: "math_radians (lat2 - lat1) / 2 = - (math_radians (lat1 - lat2) / 2)"
    using math_radians_minus [of "lat1 - lat2"] by simp
  have 2: "math_radians (lon2 - lon1) / 2 = - (math_radians (lon1 - lon2) / 2)"
    using math_radians_minus [of "lon1 - lon2"] by simp
  show ?thesis
    unfolding haversine_a_def Let_def 1 2 sin_minus power2_minus
    by (simp add: mult.commute)
qed

lemma haversine_a_same: "haversine_a lat lon lat lon = 0"
  by (simp add: haversine_a_def math_radians_def)

text \<open>
  Claim C7. \<open>haversine_km\<close> is a function of its four arguments alone (it reads
  and writes no state); it returns the same for the two orders of a pair of
  points, and 0 for a point and itself. Over the real numbers both equations
  are exact.
\<close>

theorem haversine_km_symmetric:
  "haversine_km lat1 lon1 lat2 lon2 = haversine_km lat2 lon2 lat1 lon1
   \<and> haversine_km lat1 lon1 lat1 lon1 = Inr 0"
proof
  show "haversine_km lat1 lon1 lat2 lon2 = haversine_km lat2 lon2 lat1 lon1"
    unfolding haversine_km_def haversine_a_sym [of lat1 lon1 lat2 lon2] ..
  show "haversine_km lat1 lon1 lat1 lon1 = Inr 0"
    by (simp add: haversine_km_def haversine_a_same math_sqrt_def math_atan2_def)
qed

subsection \<open>The haversine formula computes the great-circle distance\<close>

lemma two_atan2_arccos:
  fixes a :: real
  assumes "0 \<le> a" "a \<le> 1"
  shows "2 * math_atan2 (sqrt a) (sqrt (1 - a)) = arccos (1 - 2 * a)"
proof (cases "a = 1")
  case True
  then show ?thesis by (simp add: math_atan2_def)
next
  case False
  with assms have lt: "a < 1" by simp
  define x where "x = sqrt a / sqrt (1 - a)"
  have x0: "0 \<le> x" using assms lt by (simp add: x_def)
  have x2: "x\<^sup>2 = a / (1 - a)" using assms lt by (simp add: x_def power_divide)
  have "1 + x\<^sup>2 = 1 / (1 - a)" using lt by (simp add: x2 field_simps)
  then have c2: "(cos (arctan x))\<^sup>2 = 1 - a"
    using lt by (simp add: cos_arctan power_divide)
  have "cos (2 * arctan x) = 1 - 2 * a"
    using cos_double_cos [of "arctan x"] c2 by simp
  moreover have "0 \<le> 2 * arctan x" using x0 by simp
  moreover have "2 * arctan x \<le> pi" using arctan_ubound [of x] by simp
  ultimately have "arccos (1 - 2 * a) = 2 * arctan x"
    using arccos_cos [of "2 * arctan x"] by simp
  moreover have "math_atan2 (sqrt a) (sqrt (1 - a)) = arctan x"
    using lt by (simp add: math_atan2_def x_def)
  ultimately show ?thesis by simp
qed

lemma haversine_a_cosines:
  "1 - 2 * haversine_a lat1 lon1 lat2 lon2 =
     sin (lat1 * pi / 180) * sin (lat2 * pi / 180)
     + cos (lat1 * pi / 180) * cos (lat2 * pi / 180) * cos ((lon2 - lon1) * pi / 180)"
proof -
  let ?p = "lat1 * pi / 180" and ?q = "lat2 * pi / 180" and ?l = "(lon2 - lon1) * pi / 180"
  have 1: "math_radians (lat2 - lat1) = ?q - ?p"
    by (simp add: math_radians_def left_diff_distrib)
  have 2: "2 * (sin ((?q - ?p) / 2))\<^sup>2 = 1 - cos (?q - ?p)"
    using half_angle_sin [of "?q - ?p"] by simp
  have 3: "2 * (sin (?l / 2))\<^sup>2 = 1 - cos ?l"
    using half_angle_sin [of ?l] by simp
  have "1 - 2 * haversine_a lat1 lon1 lat2 lon2
        = 1 - 2 * (sin ((?q - ?p) / 2))\<^sup>2 - cos ?p * cos ?q * (2 * (sin (?l / 2))\<^sup>2)"
    unfolding haversine_a_def Let_def 1 by (simp add: math_radians_def algebra_simps)
  also have "\<dots> = cos (?q - ?p) - cos ?p * cos ?q * (1 - cos ?l)"
    unfolding 2 3 by simp
  also have "\<dots> = sin ?p * sin ?q + cos ?p * cos ?q * cos ?l"
    by (simp add: cos_diff algebra_simps)
  finally show ?thesis .
qed

lemma haversine_km_great_circle:
  "haversine_km lat1 lon1 lat2 lon2 = Inr (great_circle_km lat1 lon1 lat2 lon2)"
  using two_atan2_arccos [OF haversine_a_bounds, of lat1 lon1 lat2 lon2]
  by (simp add: haversine_km_total haversine_value_def great_circle_km_def Let_def
        haversine_a_cosines)

section \<open>The proximity query\<close>

subsection \<open>In exact arithmetic\<close>

lemma list_loop_filter:
  "list_loop lat lng radius_km ts results =
     Inr (results @ filter (\<lambda>t. great_circle_km lat lng (latitude t) (longitude t) \<le> radius_km) ts)"
  by (induction ts arbitrary: results) (simp_all add: haversine_km_great_circle)

text \<open>
  Over the real numbers the formula of \<open>haversine_km\<close> is the great-circle
  distance and its square roots never get a negative argument, so there
  \<open>list_toilets\<close> returns the records of the store whose great-circle distance
  from the centre is at most the radius (a distance equal to the radius
  included), in the order of the store, with the radius 2.0 when the request
  gives none. This is a statement about the formula, not about the code as it
  runs: see the next subsection.
\<close>

lemma list_toilets_exact:
  "list_toilets lat lng radius_km st =
     Inr (filter (\<lambda>t. great_circle_km lat lng (latitude t) (longitude t)
                        \<le> (case radius_km of None \<Rightarrow> 2.0 | Some r \<Rightarrow> r))
            (toilets_db st))"
  by (simp add: list_toilets_def list_loop_filter)

subsection \<open>In double precision\<close>

text \<open>
  Claim C4 does not hold of the code. The code computes \<^verbatim>\<open>a\<close> in double
  precision and does not clamp it to the interval from 0 to 1 before taking
  \<^verbatim>\<open>math.sqrt(1 - a)\<close>. For the centre (-82, -179) and a record at (82, 1), the
  antipode, the exact value of \<^verbatim>\<open>a\<close> is 1 and the double the code computes is
  \<^verbatim>\<open>1 + 2**-52\<close> (printed 1.0000000000000002): \<^verbatim>\<open>math.sqrt\<close> raises \<^verbatim>\<open>ValueError\<close>,
  \<open>list_toilets\<close> has no handler for it, and the query fails where the claim
  promises a list of records. The lemmas below are about the statements that
  follow the computation of \<^verbatim>\<open>a\<close>: they raise exactly when \<^verbatim>\<open>a\<close> is outside the
  interval, hence at the double above.
\<close>

lemma haversine_km_of_a_agrees:
  "haversine_km lat1 lon1 lat2 lon2 = haversine_km_of_a (haversine_a lat1 lon1 lat2 lon2)"
  by (simp add: haversine_km_def haversine_km_of_a_def Let_def split: sum.splits)

lemma haversine_km_of_a_raises:
  "haversine_km_of_a a = Inl ValueError \<longleftrightarrow> a < 0 \<or> 1 < a"
  by (auto simp: haversine_km_of_a_def math_sqrt_def)

lemma haversine_km_of_a_above_one:
  "haversine_km_of_a (1 + 1 / 2 ^ 52) = Inl ValueError"
  by (simp add: haversine_km_of_a_raises)

end
